theory Spec2Isabelle
  imports Main
begin

section \<open>LeanRooster: the editable surface\<close>

text \<open>
  The component of \<^verbatim>\<open>LeanRooster.tsx\<close> as explicit state passing. Private members keep
  their names without the leading underscore (\<^verbatim>\<open>_trySwithToEditMode\<close> is
  \<open>trySwithToEditMode\<close>); the default \<^verbatim>\<open>_updateViewState\<close> is \<open>updateViewState_default\<close>,
  since \<open>updateViewState\<close> is the prop that replaces it.

  The editor engine is an external collaborator. An instance is an identity (the number of
  the \<^verbatim>\<open>new Editor\<close> call that made it) over the content-editable div, and
  \<^verbatim>\<open>getContent()\<close> reads the markup the div holds at that moment. What the user, the
  browser or the engine do to that markup is the event \<open>DomChange\<close>.

  The view state is the object the parent owns and the props point to; the component
  mutates it in place, so it is part of the state here. Callbacks of the parent are
  observers: \<^verbatim>\<open>onBeforeModeChange\<close> is a function to a boolean, the others return
  nothing, and every call the code makes is appended to \<open>calls\<close>. The fields
  \<open>constructed\<close>, \<open>live\<close>, \<open>calls\<close> and \<open>renders\<close> are bookkeeping of what the code did:
  the number of \<^verbatim>\<open>new Editor\<close> calls, the instances made and not yet disposed, the
  callback invocations and the \<^verbatim>\<open>forceUpdate\<close> calls.
\<close>

datatype LeanRoosterModes = View | Edit

record EditorViewState =
  content :: "string option"
  isDirty :: bool

datatype Editor = Editor (eid: nat)

datatype callback =
    OnBeforeModeChange LeanRoosterModes
  | OnAfterModeChange LeanRoosterModes
  | OnBlur
  | OnFocus

text \<open>What a mode switch returns: \<^verbatim>\<open>false\<close>, \<^verbatim>\<open>true\<close>, or nothing (\<^verbatim>\<open>return;\<close>).\<close>

datatype switched = RetFalse | RetTrue | RetUndefined

record LeanRoosterProps =
  activateRoosterOnMount :: bool
  onBeforeModeChange :: "(LeanRoosterModes \<Rightarrow> bool) option"
  readonly :: bool
  updateViewState :: "(EditorViewState \<Rightarrow> string \<Rightarrow> bool option \<Rightarrow> EditorViewState) option"

record LeanRooster =
  viewState :: EditorViewState
  contentDiv :: string
  editor :: "Editor option"
  mode :: LeanRoosterModes
  initialContent :: "string option"
  constructed :: nat
  live :: "nat list"
  calls :: "callback list"
  renders :: nat

definition getContent :: "LeanRooster \<Rightarrow> Editor \<Rightarrow> string" where
  "getContent s e = contentDiv s"

definition forceUpdate :: "LeanRooster \<Rightarrow> LeanRooster" where
  "forceUpdate s = s\<lparr>renders := Suc (renders s)\<rparr>"

definition invoke :: "callback \<Rightarrow> LeanRooster \<Rightarrow> LeanRooster" where
  "invoke c s = s\<lparr>calls := calls s @ [c]\<rparr>"

definition setInitialReactContent :: "LeanRooster \<Rightarrow> LeanRooster" where
  "setInitialReactContent s =
     (let hasContent = (case content (viewState s) of None \<Rightarrow> False | Some c \<Rightarrow> length c > 0)
      in s\<lparr>initialContent := (if hasContent then content (viewState s) else None)\<rparr>)"

text \<open>
  The constructor together with the first render: the div starts with the initial markup,
  or empty when there is none. No engine yet, mode View.
\<close>

definition LeanRooster_constructor :: "EditorViewState \<Rightarrow> LeanRooster" where
  "LeanRooster_constructor vs =
     (let s = setInitialReactContent
                \<lparr>viewState = vs, contentDiv = [], editor = None, mode = View,
                 initialContent = None, constructed = 0, live = [], calls = [], renders = 0\<rparr>
      in s\<lparr>contentDiv := (case initialContent s of None \<Rightarrow> [] | Some h \<Rightarrow> h)\<rparr>)"

text \<open>
  \<^verbatim>\<open>_updateViewState\<close>: \<open>init\<close> is \<^verbatim>\<open>this._initialContent\<close>; \<open>None\<close> for
  \<open>isInitializing\<close> is \<^verbatim>\<open>undefined\<close>, which \<^verbatim>\<open>!isInitializing\<close> takes as false.
\<close>

definition updateViewState_default ::
  "string option \<Rightarrow> EditorViewState \<Rightarrow> string \<Rightarrow> bool option \<Rightarrow> EditorViewState" where
  "updateViewState_default init vs c isInitializing =
     (if content vs \<noteq> Some c then
        (let vs1 = vs\<lparr>content := Some c\<rparr>
         in if isInitializing \<noteq> Some True
            then (let originalContent = init in vs1\<lparr>isDirty := (Some c \<noteq> originalContent)\<rparr>)
            else vs1)
      else vs)"

definition updateContentToViewState ::
  "LeanRoosterProps \<Rightarrow> bool option \<Rightarrow> LeanRooster \<Rightarrow> LeanRooster" where
  "updateContentToViewState p isInitializing s =
     (case editor s of
        None \<Rightarrow> s
      | Some e \<Rightarrow>
          (let upd = (case updateViewState p of
                        None \<Rightarrow> updateViewState_default (initialContent s)
                      | Some f \<Rightarrow> f)
           in s\<lparr>viewState := upd (viewState s) (getContent s e) isInitializing\<rparr>))"

text \<open>\<^verbatim>\<open>NullFunction\<close>, the default of an absent callback, returns nothing, which is falsy.\<close>

definition beforeModeChange :: "LeanRoosterProps \<Rightarrow> LeanRoosterModes \<Rightarrow> bool" where
  "beforeModeChange p m = (case onBeforeModeChange p of None \<Rightarrow> False | Some f \<Rightarrow> f m)"

definition new_Editor :: "LeanRooster \<Rightarrow> LeanRooster" where
  "new_Editor s =
     s\<lparr>editor := Some (Editor (constructed s)),
       live := live s @ [constructed s],
       constructed := Suc (constructed s)\<rparr>"

definition trySwithToEditMode :: "LeanRoosterProps \<Rightarrow> LeanRooster \<Rightarrow> switched \<times> LeanRooster" where
  "trySwithToEditMode p s =
     (if mode s = Edit \<or> readonly p then (RetFalse, s)
      else
        (let s1 = invoke (OnBeforeModeChange Edit) s
         in if beforeModeChange p Edit then (RetUndefined, s1)
            else
              (let isInitializing = (editor s1 = None);
                   s2 = (if isInitializing then new_Editor s1 else s1);
                   s3 = s2\<lparr>mode := Edit\<rparr>;
                   s4 = updateContentToViewState p (Some isInitializing) s3;
                   s5 = forceUpdate s4;
                   s6 = invoke (OnAfterModeChange Edit) s5
               in (RetTrue, s6))))"

definition trySwitchToViewMode :: "LeanRoosterProps \<Rightarrow> LeanRooster \<Rightarrow> switched \<times> LeanRooster" where
  "trySwitchToViewMode p s =
     (if mode s = View then (RetFalse, s)
      else
        (let s1 = invoke (OnBeforeModeChange View) s
         in if beforeModeChange p View then (RetFalse, s1)
            else
              (let s2 = updateContentToViewState p None s1;
                   s3 = s2\<lparr>mode := View\<rparr>;
                   s4 = forceUpdate s3;
                   s5 = invoke (OnAfterModeChange View) s4
               in (RetTrue, s5))))"

definition componentDidMount :: "LeanRoosterProps \<Rightarrow> LeanRooster \<Rightarrow> LeanRooster" where
  "componentDidMount p s =
     (if \<not> readonly p \<and> activateRoosterOnMount p then snd (trySwithToEditMode p s) else s)"

definition dispose :: "Editor \<Rightarrow> LeanRooster \<Rightarrow> LeanRooster" where
  "dispose e s = s\<lparr>live := removeAll (eid e) (live s)\<rparr>"

definition componentWillUnmount :: "LeanRoosterProps \<Rightarrow> LeanRooster \<Rightarrow> LeanRooster" where
  "componentWillUnmount p s =
     (let s1 = updateContentToViewState p None s
      in case editor s1 of
           None \<Rightarrow> s1
         | Some e \<Rightarrow> (dispose e s1)\<lparr>editor := None\<rparr>)"

text \<open>The setter of the public \<^verbatim>\<open>mode\<close> property.\<close>

definition set_mode :: "LeanRoosterProps \<Rightarrow> LeanRoosterModes \<Rightarrow> LeanRooster \<Rightarrow> LeanRooster" where
  "set_mode p v s =
     (if v = Edit then snd (trySwithToEditMode p s) else snd (trySwitchToViewMode p s))"

definition onMouseDown :: "LeanRoosterProps \<Rightarrow> LeanRooster \<Rightarrow> LeanRooster" where
  "onMouseDown p s = snd (trySwithToEditMode p s)"

definition onBlur :: "LeanRoosterProps \<Rightarrow> LeanRooster \<Rightarrow> LeanRooster" where
  "onBlur p s = invoke OnBlur (updateContentToViewState p None s)"

text \<open>\<^verbatim>\<open>_onFocus\<close>: focusing the engine after a successful switch changes nothing kept here.\<close>

definition onFocus :: "LeanRoosterProps \<Rightarrow> LeanRooster \<Rightarrow> LeanRooster" where
  "onFocus p s = invoke OnFocus (snd (trySwithToEditMode p s))"

subsection \<open>Runs of the component\<close>

text \<open>
  An event is one call into the component, with the props in force at that call
  (the parent may change them between calls), or a change of the div's markup.
\<close>

datatype event =
    DidMount
  | SwitchToEdit
  | SwitchToView
  | SetMode LeanRoosterModes
  | MouseDown
  | Focus
  | Blur
  | DomChange string
  | WillUnmount

fun step :: "LeanRoosterProps \<times> event \<Rightarrow> LeanRooster \<Rightarrow> LeanRooster" where
  "step (p, DidMount) s = componentDidMount p s"
| "step (p, SwitchToEdit) s = snd (trySwithToEditMode p s)"
| "step (p, SwitchToView) s = snd (trySwitchToViewMode p s)"
| "step (p, SetMode v) s = set_mode p v s"
| "step (p, MouseDown) s = onMouseDown p s"
| "step (p, Focus) s = onFocus p s"
| "step (p, Blur) s = onBlur p s"
| "step (p, DomChange c) s = s\<lparr>contentDiv := c\<rparr>"
| "step (p, WillUnmount) s = componentWillUnmount p s"

fun run :: "(LeanRoosterProps \<times> event) list \<Rightarrow> LeanRooster \<Rightarrow> LeanRooster" where
  "run [] s = s"
| "run (e # es) s = run es (step e s)"

definition mounted :: "(LeanRoosterProps \<times> event) list \<Rightarrow> bool" where
  "mounted es = (WillUnmount \<notin> set (map snd es))"

section \<open>RoosterCommandBar: the command bar\<close>

text \<open>
  The component of \<^verbatim>\<open>RoosterCommandBar.tsx\<close>. A format state is a flat object: a list
  of keys with their values, looked up with \<open>map_of\<close> (\<open>None\<close> is \<^verbatim>\<open>undefined\<close>), and
  \<^verbatim>\<open>for (key in o)\<close> runs over its keys. The type \<open>'v\<close> of the values (booleans and
  strings) is left open, and \<^verbatim>\<open>!==\<close> on them is inequality.

  The editor the plugin hands out is external: it is known by whether it is disposed and by
  the format state that \<^verbatim>\<open>getFormatState(editor)\<close> reports for it (\<open>None\<close> is
  \<^verbatim>\<open>null\<close>). The calls made on it are appended to \<open>editorCalls\<close>, and \<open>setStates\<close> counts
  the \<^verbatim>\<open>setState\<close> calls, each of which re-renders the bar.
\<close>

type_synonym 'v FormatState = "(string \<times> 'v) list"

record 'v CommandBarEditor =
  isDisposed :: bool
  reportedFormatState :: "'v FormatState option"

datatype ChangeSource = Format

datatype ('f, 'n) editorCall =
    Upload 'f
  | InsertNode 'n
  | TriggerContentChangedEvent ChangeSource
  | AddUndoSnapshot
  | InsertImage 'f

record 'f HTMLInputElement =
  files :: "'f list"
  value' :: string

text \<open>
  A command bar item: its flat fields, and the submenu, whose items are items again. An
  object may lack any property, its key included (\<open>None\<close>). The click handlers (\<^verbatim>\<open>onClick\<close>, \<^verbatim>\<open>handleChange\<close>, \<^verbatim>\<open>onDismiss\<close>) are bindings
  with nothing to compute and are left out.
\<close>

record 'v ItemFields =
  key :: "string option"
  name :: "string option"
  title :: "string option"
  checked :: "bool option"
  className :: "string option"
  disabled :: "bool option"
  iconOnly :: bool
  getChecked :: "('v FormatState \<Rightarrow> bool) option"
  getSelected :: "('v FormatState \<Rightarrow> bool) option"
  getDisabled :: "('v FormatState \<Rightarrow> bool) option"

datatype 'v OutOfBoxCommandBarItem =
  Item (itemFields: "'v ItemFields") (subMenuProps: "'v SubMenuProps option")
and 'v SubMenuProps =
  SubMenuProps (items: "'v OutOfBoxCommandBarItem option list option")
               (calloutProps: "string option option")

text \<open>
  A property name: \<^verbatim>\<open>o[k]\<close> with \<^verbatim>\<open>k\<close> undefined reads the property named
  \<^verbatim>\<open>undefined\<close>.
\<close>

definition propertyKey :: "string option \<Rightarrow> string" where
  "propertyKey k = (case k of None \<Rightarrow> ''undefined'' | Some n \<Rightarrow> n)"

text \<open>
  The names every plain object inherits from \<^verbatim>\<open>Object.prototype\<close>. Each of them reads
  as a function, or as the prototype object itself: a truthy value with no enumerable
  property of its own, so that a copy \<^verbatim>\<open>{ ...v }\<close> of it is the object without fields.
\<close>

definition ObjectPrototypeMembers :: "string list" where
  "ObjectPrototypeMembers =
     [''constructor'', ''hasOwnProperty'', ''isPrototypeOf'', ''propertyIsEnumerable'',
      ''toLocaleString'', ''toString'', ''valueOf'', ''__proto__'',
      ''__defineGetter__'', ''__defineSetter__'', ''__lookupGetter__'', ''__lookupSetter__'']"

definition emptyObject :: "'v ItemFields" where
  "emptyObject = \<lparr>key = None, name = None, title = None, checked = None, className = None,
                   disabled = None, iconOnly = False, getChecked = None, getSelected = None,
                   getDisabled = None\<rparr>"

text \<open>
  Modelled from the spec: the registry of \<^verbatim>\<open>../utils/OutOfBoxCommandBarItem\<close>, "a fixed
  table keyed by string identifier". The list \<^verbatim>\<open>OutOfBoxCommandBarItems\<close> is a parameter
  (\<open>reg\<close>), and \<^verbatim>\<open>OutOfBoxCommandBarItemMap\<close> is the plain object that files each item
  of the list under the item's key, a later item replacing an earlier one with the same
  key. The property access \<^verbatim>\<open>OutOfBoxCommandBarItemMap[key]\<close> yields the item filed under
  the key; for a key no item is filed under it yields what the object inherits, and
  \<^verbatim>\<open>undefined\<close> (\<open>None\<close>) otherwise. A value is known here by the fields a copy of it has,
  which is all that \<^verbatim>\<open>_getMenuItem\<close> reads of it. The list is taken to have no item
  with the key \<^verbatim>\<open>__proto__\<close>.
\<close>

definition OutOfBoxCommandBarItemMap ::
  "'v OutOfBoxCommandBarItem list \<Rightarrow> string \<Rightarrow> 'v OutOfBoxCommandBarItem option" where
  "OutOfBoxCommandBarItemMap reg k =
     (case find (\<lambda>item. propertyKey (key (itemFields item)) = k) (rev reg) of
        Some item \<Rightarrow> Some item
      | None \<Rightarrow> if k \<in> set ObjectPrototypeMembers then Some (Item emptyObject None) else None)"

record ('v, 'f, 'n) RoosterCommandBarProps =
  getEditor :: "'v CommandBarEditor option"
  imageManager :: "('f \<Rightarrow> 'n) option"
  visibleButtonKeys :: "string list option"
  strings :: "(string \<Rightarrow> string option) option"
  calloutClassName :: "string option"

record ('v, 'f, 'n) RoosterCommandBar =
  formatState :: "'v FormatState"
  buttonKeys :: "string list"
  fileInput :: "'f HTMLInputElement"
  setStates :: nat
  editorCalls :: "('f, 'n) editorCall list"

text \<open>
  \<^verbatim>\<open>_initButtonKeys\<close>: the keys are used as property names only, so the key of an item
  of the registry is taken as the name it reads.
\<close>

definition initButtonKeys ::
  "'v OutOfBoxCommandBarItem list \<Rightarrow> ('v, 'f, 'n) RoosterCommandBarProps \<Rightarrow> ('v, 'f, 'n) RoosterCommandBar
     \<Rightarrow> ('v, 'f, 'n) RoosterCommandBar" where
  "initButtonKeys reg p s =
     s\<lparr>buttonKeys := (case visibleButtonKeys p of
                        Some ks \<Rightarrow> ks
                      | None \<Rightarrow> map (\<lambda>item. propertyKey (key (itemFields item))) reg)\<rparr>"

text \<open>A string is truthy when it is there and not empty.\<close>

definition truthy :: "string option \<Rightarrow> bool" where
  "truthy x = (case x of None \<Rightarrow> False | Some v \<Rightarrow> v \<noteq> [])"

text \<open>\<^verbatim>\<open>css({ "is-selected": b })\<close> keeps the class names whose value is true.\<close>

definition css_is_selected :: "bool \<Rightarrow> string" where
  "css_is_selected b = (if b then ''is-selected'' else [])"

text \<open>The part of \<^verbatim>\<open>_getMenuItem\<close> on the flat fields of the copy, in the source's order.\<close>

definition enrich ::
  "('v, 'f, 'n) RoosterCommandBarProps \<Rightarrow> 'v FormatState \<Rightarrow> 'v ItemFields \<Rightarrow> 'v ItemFields" where
  "enrich p fs commandBarItem =
     (let item = commandBarItem;
          item = (case getChecked item of None \<Rightarrow> item | Some f \<Rightarrow> item\<lparr>checked := Some (f fs)\<rparr>);
          item = (case getSelected item of None \<Rightarrow> item
                  | Some f \<Rightarrow> item\<lparr>className := Some (css_is_selected (f fs))\<rparr>);
          item = (case getDisabled item of None \<Rightarrow> item | Some f \<Rightarrow> item\<lparr>disabled := Some (f fs)\<rparr>);
          item = item\<lparr>iconOnly := True\<rparr>;
          item = (case strings p of
                    None \<Rightarrow> item
                  | Some str \<Rightarrow>
                      if truthy (str (propertyKey (key item)))
                      then item\<lparr>name := str (propertyKey (key item))\<rparr> else item);
          item = (if truthy (name item) \<and> title item = None then item\<lparr>title := name item\<rparr> else item)
      in item)"

fun getMenuItem ::
  "('v, 'f, 'n) RoosterCommandBarProps \<Rightarrow> 'v FormatState \<Rightarrow> 'v OutOfBoxCommandBarItem option
     \<Rightarrow> 'v OutOfBoxCommandBarItem option" where
  "getMenuItem p fs None = None"
| "getMenuItem p fs (Some (Item flds sub)) =
     Some (Item (enrich p fs flds)
        (case sub of
           None \<Rightarrow> None
         | Some (SubMenuProps None cp) \<Rightarrow> Some (SubMenuProps None cp)
         | Some (SubMenuProps (Some its) cp) \<Rightarrow>
             Some (SubMenuProps (Some (map (getMenuItem p fs) its)) (Some (calloutClassName p)))))"

definition createItems ::
  "'v OutOfBoxCommandBarItem list \<Rightarrow> ('v, 'f, 'n) RoosterCommandBarProps \<Rightarrow> ('v, 'f, 'n) RoosterCommandBar
     \<Rightarrow> 'v OutOfBoxCommandBarItem option list" where
  "createItems reg p s =
     filter (\<lambda>menuItem. menuItem \<noteq> None)
       (map (\<lambda>k. getMenuItem p (formatState s) (OutOfBoxCommandBarItemMap reg k)) (buttonKeys s))"

text \<open>
  The constructor: \<open>initial\<close> is what \<^verbatim>\<open>createFormatState()\<close> returns (a function of
  another package), and the file input starts with no file and no value.
\<close>

definition RoosterCommandBar_constructor ::
  "'v OutOfBoxCommandBarItem list \<Rightarrow> 'v FormatState \<Rightarrow> ('v, 'f, 'n) RoosterCommandBarProps
     \<Rightarrow> ('v, 'f, 'n) RoosterCommandBar" where
  "RoosterCommandBar_constructor reg initial p =
     initButtonKeys reg p
       \<lparr>formatState = initial, buttonKeys = [], fileInput = \<lparr>files = [], value' = []\<rparr>,
        setStates = 0, editorCalls = []\<rparr>"

definition componentWillUpdate ::
  "'v OutOfBoxCommandBarItem list \<Rightarrow> ('v, 'f, 'n) RoosterCommandBarProps \<Rightarrow> ('v, 'f, 'n) RoosterCommandBar
     \<Rightarrow> ('v, 'f, 'n) RoosterCommandBar" where
  "componentWillUpdate reg nextProps s = initButtonKeys reg nextProps s"

definition call :: "('f, 'n) editorCall \<Rightarrow> ('v, 'f, 'n) RoosterCommandBar \<Rightarrow> ('v, 'f, 'n) RoosterCommandBar" where
  "call c s = s\<lparr>editorCalls := editorCalls s @ [c]\<rparr>"

text \<open>\<^verbatim>\<open>files[0]\<close> of an empty file list is \<^verbatim>\<open>undefined\<close>.\<close>

definition fileInputOnChange ::
  "('v, 'f, 'n) RoosterCommandBarProps \<Rightarrow> ('v, 'f, 'n) RoosterCommandBar
     \<Rightarrow> ('v, 'f, 'n) RoosterCommandBar" where
  "fileInputOnChange p s =
     (let editor = getEditor p;
          file = (case files (fileInput s) of [] \<Rightarrow> None | f # _ \<Rightarrow> Some f)
      in case editor of
           None \<Rightarrow> s
         | Some e \<Rightarrow>
             (case file of
                None \<Rightarrow> s
              | Some f \<Rightarrow>
                  if isDisposed e then s
                  else
                    (let s1 = (case imageManager p of
                                 Some upload \<Rightarrow>
                                   (let s2 = call (Upload f) s;
                                        placeholder = upload f;
                                        s3 = call (InsertNode placeholder) s2;
                                        s4 = call (TriggerContentChangedEvent Format) s3
                                    in call AddUndoSnapshot s4)
                               | None \<Rightarrow> call (InsertImage f) s)
                     in s1\<lparr>fileInput := (fileInput s1)\<lparr>value' := []\<rparr>\<rparr>)))"

text \<open>\<^verbatim>\<open>_isFormatStateChanged\<close>: the loop over the keys of the state held.\<close>

fun isFormatStateChanged_loop :: "string list \<Rightarrow> 'v FormatState \<Rightarrow> 'v FormatState \<Rightarrow> bool" where
  "isFormatStateChanged_loop [] held newState = False"
| "isFormatStateChanged_loop (k # ks) held newState =
     (if map_of held k \<noteq> map_of newState k then True
      else isFormatStateChanged_loop ks held newState)"

definition isFormatStateChanged :: "('v, 'f, 'n) RoosterCommandBar \<Rightarrow> 'v FormatState \<Rightarrow> bool" where
  "isFormatStateChanged s newState =
     isFormatStateChanged_loop (map fst (formatState s)) (formatState s) newState"

definition setState :: "'v FormatState \<Rightarrow> ('v, 'f, 'n) RoosterCommandBar \<Rightarrow> ('v, 'f, 'n) RoosterCommandBar" where
  "setState fs s = s\<lparr>formatState := fs, setStates := Suc (setStates s)\<rparr>"

definition updateFormatState ::
  "('v, 'f, 'n) RoosterCommandBarProps \<Rightarrow> ('v, 'f, 'n) RoosterCommandBar
     \<Rightarrow> ('v, 'f, 'n) RoosterCommandBar" where
  "updateFormatState p s =
     (let newState = (case getEditor p of None \<Rightarrow> None | Some e \<Rightarrow> reportedFormatState e)
      in case newState of
           None \<Rightarrow> s
         | Some fs \<Rightarrow> if isFormatStateChanged s fs then setState fs s else s)"

section \<open>Invariants and concrete inputs\<close>

text \<open>
  \<open>held_ok\<close>: the instances alive are exactly the one the component holds, and it has been
  counted. \<open>mounted_ok\<close>: what holds in addition until the component is unmounted.
\<close>

definition held_ok :: "LeanRooster \<Rightarrow> bool" where
  "held_ok s = (case editor s of
                  None \<Rightarrow> live s = []
                | Some e \<Rightarrow> live s = [eid e] \<and> eid e < constructed s)"

definition mounted_ok :: "LeanRooster \<Rightarrow> bool" where
  "mounted_ok s = ((mode s = Edit \<longrightarrow> editor s \<noteq> None) \<and>
                   constructed s = (if editor s = None then 0 else 1))"

fun isAfterModeChange :: "callback \<Rightarrow> bool" where
  "isAfterModeChange (OnAfterModeChange m) = True"
| "isAfterModeChange c = False"

definition props0 :: LeanRoosterProps where
  "props0 = \<lparr>activateRoosterOnMount = False, onBeforeModeChange = None, readonly = False,
             updateViewState = None\<rparr>"

definition vetoProps :: LeanRoosterProps where
  "vetoProps = props0\<lparr>onBeforeModeChange := Some (\<lambda>m. True)\<rparr>"

definition viewState0 :: EditorViewState where
  "viewState0 = \<lparr>content = Some ''<p>a</p>'', isDirty = False\<rparr>"

text \<open>The surface after a first switch to Edit, and after the user then typed.\<close>

definition editing0 :: LeanRooster where
  "editing0 = run [(props0, SwitchToEdit)] (LeanRooster_constructor viewState0)"

definition typed0 :: LeanRooster where
  "typed0 = run [(props0, SwitchToEdit), (props0, DomChange ''<p>b</p>'')]
              (LeanRooster_constructor viewState0)"

text \<open>The same on a surface that was given no content.\<close>

definition blank0 :: LeanRooster where
  "blank0 = run [(props0, SwitchToEdit), (props0, DomChange ''x'')]
              (LeanRooster_constructor \<lparr>content = None, isDirty = False\<rparr>)"

text \<open>
  The surface whose engine, on its first activation, reports markup that is not the initial
  markup letter for letter.
\<close>

definition normalised0 :: LeanRooster where
  "normalised0 = run [(props0, DomChange ''<div>a</div>''), (props0, SwitchToEdit)]
                   (LeanRooster_constructor viewState0)"

definition barProps0 :: "(bool, string, string) RoosterCommandBarProps" where
  "barProps0 = \<lparr>getEditor = Some \<lparr>isDisposed = False,
                   reportedFormatState = Some [(''bold'', False), (''link'', True)]\<rparr>,
                 imageManager = None, visibleButtonKeys = Some [''bold'', ''nope'', ''link''],
                 strings = None, calloutClassName = None\<rparr>"

definition bar0 :: "(bool, string, string) RoosterCommandBar" where
  "bar0 = \<lparr>formatState = [(''bold'', False)], buttonKeys = [],
            fileInput = \<lparr>files = [''cat.png''], value' = ''C:/fakepath/cat.png''\<rparr>,
            setStates = 0, editorCalls = []\<rparr>"




section \<open>The editable surface: engine and mode\<close>

lemmas LeanRooster_defs =
  LeanRooster_constructor_def setInitialReactContent_def trySwithToEditMode_def
  trySwitchToViewMode_def updateContentToViewState_def updateViewState_default_def
  beforeModeChange_def new_Editor_def invoke_def forceUpdate_def getContent_def
  componentWillUnmount_def dispose_def onBlur_def onFocus_def onMouseDown_def set_mode_def
  componentDidMount_def Let_def

lemma updateContentToViewState_fields [simp]:
  "editor (updateContentToViewState p i s) = editor s"
  "mode (updateContentToViewState p i s) = mode s"
  "live (updateContentToViewState p i s) = live s"
  "constructed (updateContentToViewState p i s) = constructed s"
  "calls (updateContentToViewState p i s) = calls s"
  "initialContent (updateContentToViewState p i s) = initialContent s"
  "contentDiv (updateContentToViewState p i s) = contentDiv s"
  by (simp_all add: updateContentToViewState_def Let_def split: option.splits)

lemma updateContentToViewState_None [simp]:
  "editor s = None \<Longrightarrow> updateContentToViewState p i s = s"
  by (simp add: updateContentToViewState_def)

lemma held_ok_edit: "held_ok s \<Longrightarrow> held_ok (snd (trySwithToEditMode p s))"
  by (auto simp: held_ok_def trySwithToEditMode_def Let_def invoke_def forceUpdate_def new_Editor_def
           split: option.splits)

lemma held_ok_view: "held_ok s \<Longrightarrow> held_ok (snd (trySwitchToViewMode p s))"
  by (auto simp: held_ok_def trySwitchToViewMode_def Let_def invoke_def forceUpdate_def
           split: option.splits)

lemma held_ok_unmount: "held_ok s \<Longrightarrow> held_ok (componentWillUnmount p s)"
  by (auto simp: held_ok_def componentWillUnmount_def Let_def dispose_def split: option.splits)

lemma held_ok_step: "held_ok s \<Longrightarrow> held_ok (step e s)"
proof (cases e)
  case (Pair p ev)
  assume h: "held_ok s"
  show ?thesis
  proof (cases ev)
    case Blur
    with h Pair show ?thesis by (simp add: onBlur_def invoke_def held_ok_def split: option.splits)
  next
    case (DomChange c)
    with h Pair show ?thesis by (simp add: held_ok_def split: option.splits)
  next
    case Focus
    with held_ok_edit[OF h, of p] Pair show ?thesis
      by (simp add: onFocus_def invoke_def held_ok_def split: option.splits)
  qed (use h Pair held_ok_edit[OF h, of p] held_ok_view[OF h, of p] held_ok_unmount[OF h, of p]
       in \<open>simp_all add: componentDidMount_def set_mode_def onMouseDown_def\<close>)
qed

lemma held_ok_run: "held_ok s \<Longrightarrow> held_ok (run es s)"
  by (induction es arbitrary: s) (simp_all add: held_ok_step)

lemma held_ok_init: "held_ok (LeanRooster_constructor vs)"
  by (simp add: held_ok_def LeanRooster_constructor_def setInitialReactContent_def Let_def)

lemma mounted_ok_edit: "mounted_ok s \<Longrightarrow> mounted_ok (snd (trySwithToEditMode p s))"
  by (auto simp: mounted_ok_def trySwithToEditMode_def Let_def invoke_def forceUpdate_def new_Editor_def
           split: if_splits)

lemma mounted_ok_view: "mounted_ok s \<Longrightarrow> mounted_ok (snd (trySwitchToViewMode p s))"
  by (auto simp: mounted_ok_def trySwitchToViewMode_def Let_def invoke_def forceUpdate_def
           split: if_splits)

lemma mounted_ok_step: "mounted_ok s \<Longrightarrow> snd e \<noteq> WillUnmount \<Longrightarrow> mounted_ok (step e s)"
proof (cases e)
  case (Pair p ev)
  assume h: "mounted_ok s" and n: "snd e \<noteq> WillUnmount"
  show ?thesis
  proof (cases ev)
    case Blur
    with h Pair show ?thesis by (simp add: onBlur_def invoke_def mounted_ok_def)
  next
    case (DomChange c)
    with h Pair show ?thesis by (simp add: mounted_ok_def)
  next
    case Focus
    with mounted_ok_edit[OF h, of p] Pair show ?thesis
      by (simp add: onFocus_def invoke_def mounted_ok_def)
  qed (use h n Pair mounted_ok_edit[OF h, of p] mounted_ok_view[OF h, of p]
       in \<open>simp_all add: componentDidMount_def set_mode_def onMouseDown_def\<close>)
qed

lemma mounted_ok_run: "mounted_ok s \<Longrightarrow> mounted es \<Longrightarrow> mounted_ok (run es s)"
  by (induction es arbitrary: s) (auto simp: mounted_def mounted_ok_step)

lemma mounted_ok_init: "mounted_ok (LeanRooster_constructor vs)"
  by (simp add: mounted_ok_def LeanRooster_constructor_def setInitialReactContent_def Let_def)

text \<open>
  C1, as stated, fails: after a switch to Edit and a switch back to View the mode is View
  and the engine made by the first switch is still held.
\<close>

theorem C1_view_mode_keeps_engine:
  "mode (run [(props0, SwitchToEdit), (props0, SwitchToView)] (LeanRooster_constructor viewState0))
     = View
   \<and> editor (run [(props0, SwitchToEdit), (props0, SwitchToView)]
               (LeanRooster_constructor viewState0))
     = Some (Editor 0)"
  by (simp add: LeanRooster_defs props0_def viewState0_def)

text \<open>
  C1, amended: in every state the surface reaches from its construction by mount, mode
  switches, pointer, focus and blur events and changes of the markup, up to its unmount,
  mode Edit implies that an engine instance is held. The converse is not promised: a switch
  to View leaves the engine where it is.
\<close>

theorem C1_edit_mode_has_engine:
  "(mounted es \<longrightarrow> mode (run es (LeanRooster_constructor vs)) = Edit
      \<longrightarrow> editor (run es (LeanRooster_constructor vs)) \<noteq> None)
   \<and> editor (snd (trySwitchToViewMode p s)) = editor s"
proof (intro conjI impI)
  assume m: "mounted es" and e: "mode (run es (LeanRooster_constructor vs)) = Edit"
  show "editor (run es (LeanRooster_constructor vs)) \<noteq> None"
    using mounted_ok_run[OF mounted_ok_init m, of vs] e by (simp add: mounted_ok_def)
next
  show "editor (snd (trySwitchToViewMode p s)) = editor s"
    by (simp add: trySwitchToViewMode_def Let_def invoke_def forceUpdate_def)
qed

theorem C1_edit_mode_has_engine_witness:
  "mounted [(props0, SwitchToEdit)]
   \<and> mode (run [(props0, SwitchToEdit)] (LeanRooster_constructor viewState0)) = Edit
   \<and> editor (run [(props0, SwitchToEdit)] (LeanRooster_constructor viewState0)) \<noteq> None
   \<and> editor (snd (trySwitchToViewMode props0 editing0)) = editor editing0"
proof -
  have h1: "mounted [(props0, SwitchToEdit)]" by (simp add: mounted_def)
  have h2: "mode (run [(props0, SwitchToEdit)] (LeanRooster_constructor viewState0)) = Edit"
    by (simp add: LeanRooster_defs props0_def viewState0_def)
  show ?thesis
    using h1 h2 C1_edit_mode_has_engine[of "[(props0, SwitchToEdit)]" viewState0 props0 editing0]
    by simp
qed

text \<open>
  C4: over every run of the surface at most one engine instance is alive at a time; until
  the unmount the engine is constructed at most once, however often the surface is switched
  to Edit and back; and a switch to Edit that finds an engine constructs none and keeps the
  one it found.
\<close>

theorem C4_at_most_one_engine:
  "length (live (run es (LeanRooster_constructor vs))) \<le> 1
   \<and> (mounted es \<longrightarrow> constructed (run es (LeanRooster_constructor vs)) \<le> 1)
   \<and> (editor s \<noteq> None \<longrightarrow> constructed (snd (trySwithToEditMode p s)) = constructed s
                            \<and> editor (snd (trySwithToEditMode p s)) = editor s)"
proof (intro conjI impI)
  show "length (live (run es (LeanRooster_constructor vs))) \<le> 1"
    using held_ok_run[OF held_ok_init, of es vs] by (simp add: held_ok_def split: option.splits)
  show "constructed (run es (LeanRooster_constructor vs)) \<le> 1" if "mounted es"
    using mounted_ok_run[OF mounted_ok_init that, of vs] by (simp add: mounted_ok_def)
  show "constructed (snd (trySwithToEditMode p s)) = constructed s" if "editor s \<noteq> None"
    using that by (auto simp: trySwithToEditMode_def Let_def invoke_def forceUpdate_def)
  show "editor (snd (trySwithToEditMode p s)) = editor s" if "editor s \<noteq> None"
    using that by (auto simp: trySwithToEditMode_def Let_def invoke_def forceUpdate_def)
qed

theorem C4_at_most_one_engine_witness:
  "mounted [(props0, SwitchToEdit), (props0, SwitchToView), (props0, SwitchToEdit)]
   \<and> editor (snd (trySwitchToViewMode props0 editing0)) \<noteq> None
   \<and> length (live (run [(props0, SwitchToEdit), (props0, SwitchToView), (props0, SwitchToEdit)]
                     (LeanRooster_constructor viewState0))) \<le> 1
   \<and> constructed (run [(props0, SwitchToEdit), (props0, SwitchToView), (props0, SwitchToEdit)]
                     (LeanRooster_constructor viewState0)) \<le> 1
   \<and> constructed (snd (trySwithToEditMode props0 (snd (trySwitchToViewMode props0 editing0))))
     = constructed (snd (trySwitchToViewMode props0 editing0))
   \<and> editor (snd (trySwithToEditMode props0 (snd (trySwitchToViewMode props0 editing0))))
     = editor (snd (trySwitchToViewMode props0 editing0))"
proof -
  have h1: "mounted [(props0, SwitchToEdit), (props0, SwitchToView), (props0, SwitchToEdit)]"
    by (simp add: mounted_def)
  have h2: "editor (snd (trySwitchToViewMode props0 editing0)) \<noteq> None"
    by (simp add: LeanRooster_defs props0_def viewState0_def editing0_def)
  show ?thesis
    using h1 h2
      C4_at_most_one_engine[of "[(props0, SwitchToEdit), (props0, SwitchToView), (props0, SwitchToEdit)]"
        viewState0 "snd (trySwitchToViewMode props0 editing0)" props0]
    by simp
qed

section \<open>The editable surface: switches that do nothing\<close>

text \<open>
  C5: a switch to Edit when the surface is in Edit mode already, or when it is read-only,
  returns false and leaves the whole state as it was: mode, engine, view state, and the
  record of callback invocations, so neither callback is called.
\<close>

theorem C5_switch_to_edit_noop:
  assumes "mode s = Edit \<or> readonly p"
  shows "trySwithToEditMode p s = (RetFalse, s)"
  using assms by (simp add: trySwithToEditMode_def)

theorem C5_switch_to_edit_noop_witness:
  "mode editing0 = Edit
   \<and> trySwithToEditMode props0 editing0 = (RetFalse, editing0)
   \<and> readonly (props0\<lparr>readonly := True\<rparr>)
   \<and> trySwithToEditMode (props0\<lparr>readonly := True\<rparr>) (LeanRooster_constructor viewState0)
     = (RetFalse, LeanRooster_constructor viewState0)"
proof -
  have h1: "mode editing0 = Edit"
    by (simp add: LeanRooster_defs props0_def viewState0_def editing0_def)
  have h2: "readonly (props0\<lparr>readonly := True\<rparr>)" by simp
  show ?thesis
    using h1 h2 C5_switch_to_edit_noop[of editing0 props0]
      C5_switch_to_edit_noop[of "LeanRooster_constructor viewState0" "props0\<lparr>readonly := True\<rparr>"]
    by simp
qed

text \<open>
  C6: when the caller's \<^verbatim>\<open>onBeforeModeChange\<close> answers true for the mode a switch asks
  for, the switch (to Edit or to View) leaves mode, engine, number of engines constructed
  and view state as they were, calls no \<^verbatim>\<open>onAfterModeChange\<close>, and returns false or
  nothing.
\<close>

theorem C6_veto_blocks_switch:
  assumes "onBeforeModeChange p = Some veto" and "veto m"
  shows "(case (if m = Edit then trySwithToEditMode p s else trySwitchToViewMode p s) of
            (r, s1) \<Rightarrow>
              mode s1 = mode s \<and> editor s1 = editor s \<and> constructed s1 = constructed s
              \<and> viewState s1 = viewState s
              \<and> filter isAfterModeChange (calls s1) = filter isAfterModeChange (calls s)
              \<and> (r = RetFalse \<or> r = RetUndefined))"
  using assms
  by (cases m) (simp_all add: trySwithToEditMode_def trySwitchToViewMode_def Let_def invoke_def
                  beforeModeChange_def)

theorem C6_veto_blocks_switch_witness:
  "onBeforeModeChange vetoProps = Some (\<lambda>m. True)
   \<and> trySwithToEditMode vetoProps (LeanRooster_constructor viewState0)
     = (RetUndefined, (LeanRooster_constructor viewState0)\<lparr>calls := [OnBeforeModeChange Edit]\<rparr>)
   \<and> trySwitchToViewMode vetoProps editing0
     = (RetFalse, editing0\<lparr>calls := calls editing0 @ [OnBeforeModeChange View]\<rparr>)
   \<and> (case trySwithToEditMode vetoProps (LeanRooster_constructor viewState0) of
         (r, s1) \<Rightarrow>
           mode s1 = mode (LeanRooster_constructor viewState0)
           \<and> editor s1 = editor (LeanRooster_constructor viewState0)
           \<and> constructed s1 = constructed (LeanRooster_constructor viewState0)
           \<and> viewState s1 = viewState (LeanRooster_constructor viewState0)
           \<and> filter isAfterModeChange (calls s1)
             = filter isAfterModeChange (calls (LeanRooster_constructor viewState0))
           \<and> (r = RetFalse \<or> r = RetUndefined))"
proof -
  have h1: "onBeforeModeChange vetoProps = Some (\<lambda>m. True)"
    by (simp add: vetoProps_def)
  have h2: "(\<lambda>m::LeanRoosterModes. True) Edit" by simp
  have e: "trySwithToEditMode vetoProps (LeanRooster_constructor viewState0)
     = (RetUndefined, (LeanRooster_constructor viewState0)\<lparr>calls := [OnBeforeModeChange Edit]\<rparr>)"
    by (simp add: LeanRooster_defs props0_def vetoProps_def viewState0_def editing0_def)
  have v: "trySwitchToViewMode vetoProps editing0
     = (RetFalse, editing0\<lparr>calls := calls editing0 @ [OnBeforeModeChange View]\<rparr>)"
    by (simp add: LeanRooster_defs props0_def vetoProps_def viewState0_def editing0_def)
  show ?thesis
    using h1 h2 e v
      C6_veto_blocks_switch[of vetoProps "\<lambda>m. True" Edit "LeanRooster_constructor viewState0"]
    by simp
qed

section \<open>The editable surface: the view state\<close>

text \<open>
  C2, as stated, fails: on the surface whose engine reports \<^verbatim>\<open><div>a</div>\<close> for the
  initial markup \<^verbatim>\<open><p>a</p>\<close>, the first activation writes the content without
  touching the dirty flag, and the flush on blur then finds the content already there and
  leaves the flag false, although the content differs from the initial markup.
\<close>

theorem C2_blur_leaves_flag:
  "editor normalised0 = Some (Editor 0)
   \<and> updateViewState props0 = None
   \<and> getContent normalised0 (Editor 0) = ''<div>a</div>''
   \<and> initialContent normalised0 = Some ''<p>a</p>''
   \<and> viewState (onBlur props0 normalised0) = \<lparr>content = Some ''<div>a</div>'', isDirty = False\<rparr>"
  by (simp add: LeanRooster_defs props0_def viewState0_def normalised0_def)

text \<open>
  C2, amended: with the default \<^verbatim>\<open>updateViewState\<close> and an engine whose content is c, a
  flush on blur leaves c in the content field of the view state. When the field held c
  already, the flush leaves the view state, dirty flag included, as it was. When the field
  held something else and the surface was rendered with initial markup, the flush sets the
  dirty flag to true if c differs from that markup and to false if it does not; when the
  surface was rendered without initial markup and c is not empty, the flush sets the flag
  to true.
\<close>

theorem C2_blur_flush:
  assumes "updateViewState p = None" and "editor s = Some e"
  shows "content (viewState (onBlur p s)) = Some (getContent s e)
         \<and> (content (viewState s) = Some (getContent s e) \<longrightarrow>
              viewState (onBlur p s) = viewState s)
         \<and> (content (viewState s) \<noteq> Some (getContent s e) \<longrightarrow>
              (\<forall>h. initialContent s = Some h \<longrightarrow>
                 isDirty (viewState (onBlur p s)) = (getContent s e \<noteq> h))
              \<and> (initialContent s = None \<longrightarrow> getContent s e \<noteq> [] \<longrightarrow>
                   isDirty (viewState (onBlur p s))))"
  using assms
  by (simp add: onBlur_def invoke_def updateContentToViewState_def updateViewState_default_def
        Let_def)

theorem C2_blur_flush_witness:
  "updateViewState props0 = None
   \<and> editor typed0 = Some (Editor 0)
   \<and> getContent typed0 (Editor 0) = ''<p>b</p>''
   \<and> content (viewState typed0) \<noteq> Some ''<p>b</p>''
   \<and> initialContent typed0 = Some ''<p>a</p>''
   \<and> content (viewState (onBlur props0 typed0)) = Some ''<p>b</p>''
   \<and> isDirty (viewState (onBlur props0 typed0))
   \<and> content (viewState editing0) = Some (getContent editing0 (Editor 0))
   \<and> viewState (onBlur props0 editing0) = viewState editing0
   \<and> initialContent blank0 = None
   \<and> content (viewState blank0) \<noteq> Some (getContent blank0 (Editor 0))
   \<and> getContent blank0 (Editor 0) \<noteq> []
   \<and> isDirty (viewState (onBlur props0 blank0))"
proof -
  note defs = LeanRooster_defs props0_def viewState0_def editing0_def typed0_def blank0_def
  have h1: "updateViewState props0 = None" by (simp add: props0_def)
  have h2: "editor typed0 = Some (Editor 0)" by (simp add: defs)
  have h3: "editor editing0 = Some (Editor 0)" by (simp add: defs)
  have h4: "editor blank0 = Some (Editor 0)" by (simp add: defs)
  have c: "getContent typed0 (Editor 0) = ''<p>b</p>''" by (simp add: defs)
  have d: "content (viewState typed0) \<noteq> Some ''<p>b</p>''" by (simp add: defs)
  have i: "initialContent typed0 = Some ''<p>a</p>''" by (simp add: defs)
  have k: "content (viewState editing0) = Some (getContent editing0 (Editor 0))"
    by (simp add: defs)
  have n: "initialContent blank0 = None" by (simp add: defs)
  have m: "content (viewState blank0) \<noteq> Some (getContent blank0 (Editor 0))"
    by (simp add: defs)
  have x: "getContent blank0 (Editor 0) \<noteq> []" by (simp add: defs)
  show ?thesis
    using h1 h2 c d i k n m x
      C2_blur_flush[OF h1 h2] C2_blur_flush[OF h1 h3] C2_blur_flush[OF h1 h4]
    by simp
qed

text \<open>
  C10: on a surface for which no engine has been constructed so far, a blur and an unmount
  leave the view state, content and dirty flag, as it was.
\<close>

theorem C10_no_engine_no_flush:
  assumes "constructed (run es (LeanRooster_constructor vs)) = 0"
  shows "viewState (onBlur p (run es (LeanRooster_constructor vs)))
           = viewState (run es (LeanRooster_constructor vs))
         \<and> viewState (componentWillUnmount p (run es (LeanRooster_constructor vs)))
           = viewState (run es (LeanRooster_constructor vs))"
proof -
  have "editor (run es (LeanRooster_constructor vs)) = None"
    using held_ok_run[OF held_ok_init, of es vs] assms
    by (simp add: held_ok_def split: option.splits)
  then show ?thesis
    by (simp add: onBlur_def invoke_def componentWillUnmount_def Let_def)
qed

theorem C10_no_engine_no_flush_witness:
  "constructed (run [(props0, DomChange ''typed''), (props0, Blur)]
                 (LeanRooster_constructor viewState0)) = 0
   \<and> viewState (onBlur props0 (run [(props0, DomChange ''typed''), (props0, Blur)]
                                 (LeanRooster_constructor viewState0)))
     = viewState0
   \<and> viewState (componentWillUnmount props0
                  (run [(props0, DomChange ''typed''), (props0, Blur)]
                     (LeanRooster_constructor viewState0)))
     = viewState0"
proof -
  have h: "constructed (run [(props0, DomChange ''typed''), (props0, Blur)]
                 (LeanRooster_constructor viewState0)) = 0"
    by (simp add: LeanRooster_defs props0_def viewState0_def)
  have v: "viewState (run [(props0, DomChange ''typed''), (props0, Blur)]
                 (LeanRooster_constructor viewState0)) = viewState0"
    by (simp add: LeanRooster_defs props0_def viewState0_def)
  show ?thesis
    using h v C10_no_engine_no_flush[OF h, of props0] by simp
qed

section \<open>The command bar: format state\<close>

lemma isFormatStateChanged_loop_iff:
  "isFormatStateChanged_loop ks held newState = (\<exists>k\<in>set ks. map_of held k \<noteq> map_of newState k)"
  by (induction ks) auto

text \<open>
  C3, as stated, fails: the comparison is not an equality of the two mappings key by key.
  The state held is \<^verbatim>\<open>{bold: false}\<close>, the state polled is
  \<^verbatim>\<open>{bold: false, link: true}\<close>: the key \<^verbatim>\<open>link\<close> differs, and no state update is made.
\<close>

theorem C3_new_key_not_compared:
  "getEditor barProps0 = Some \<lparr>isDisposed = False,
      reportedFormatState = Some [(''bold'', False), (''link'', True)]\<rparr>
   \<and> formatState bar0 = [(''bold'', False)]
   \<and> map_of (formatState bar0) ''link'' \<noteq> map_of [(''bold'', False), (''link'', True)] ''link''
   \<and> updateFormatState barProps0 bar0 = bar0"
  by (simp add: updateFormatState_def barProps0_def bar0_def isFormatStateChanged_def setState_def)

text \<open>
  C3, amended: the Command Bar compares the state it holds with the state polled over the
  keys of the state it holds, and makes a state update (a re-render) exactly when one of
  these keys has another value in the state polled; the update stores the state polled.
  A state polled with every such key equal makes no update, one in which such a key changed
  makes one. A key that only the state polled has is not compared.
\<close>

theorem C3_update_iff_held_key_differs:
  assumes "getEditor p = Some e" and "reportedFormatState e = Some newState"
  shows "(setStates (updateFormatState p s) \<noteq> setStates s)
           = (\<exists>k\<in>set (map fst (formatState s)). map_of (formatState s) k \<noteq> map_of newState k)
         \<and> updateFormatState p s
           = (if \<exists>k\<in>set (map fst (formatState s)). map_of (formatState s) k \<noteq> map_of newState k
              then setState newState s else s)"
  using assms
  by (simp add: updateFormatState_def isFormatStateChanged_def isFormatStateChanged_loop_iff
        setState_def)

theorem C3_update_iff_held_key_differs_witness:
  "getEditor (barProps0\<lparr>getEditor := Some \<lparr>isDisposed = False,
       reportedFormatState = Some [(''bold'', True), (''link'', False)]\<rparr>\<rparr>)
     = Some \<lparr>isDisposed = False, reportedFormatState = Some [(''bold'', True), (''link'', False)]\<rparr>
   \<and> updateFormatState
        (barProps0\<lparr>getEditor := Some \<lparr>isDisposed = False,
            reportedFormatState = Some [(''bold'', True), (''link'', False)]\<rparr>\<rparr>)
        (bar0\<lparr>formatState := [(''bold'', True), (''link'', False)]\<rparr>)
     = bar0\<lparr>formatState := [(''bold'', True), (''link'', False)]\<rparr>
   \<and> setStates (updateFormatState
        (barProps0\<lparr>getEditor := Some \<lparr>isDisposed = False,
            reportedFormatState = Some [(''bold'', True), (''link'', False)]\<rparr>\<rparr>)
        (bar0\<lparr>formatState := [(''bold'', False)]\<rparr>))
     \<noteq> setStates (bar0\<lparr>formatState := [(''bold'', False)]\<rparr>)
   \<and> formatState (updateFormatState
        (barProps0\<lparr>getEditor := Some \<lparr>isDisposed = False,
            reportedFormatState = Some [(''bold'', True), (''link'', False)]\<rparr>\<rparr>)
        (bar0\<lparr>formatState := [(''bold'', False)]\<rparr>))
     = [(''bold'', True), (''link'', False)]"
proof -
  let ?e = "\<lparr>isDisposed = False,
             reportedFormatState = Some [(''bold'', True), (''link'', False)]\<rparr>"
  let ?p = "barProps0\<lparr>getEditor := Some ?e\<rparr>"
  have h1: "getEditor ?p = Some ?e" by simp
  have h2: "reportedFormatState ?e = Some [(''bold'', True), (''link'', False)]" by simp
  show ?thesis
    using h1
      C3_update_iff_held_key_differs[OF h1 h2,
        of "bar0\<lparr>formatState := [(''bold'', True), (''link'', False)]\<rparr>"]
      C3_update_iff_held_key_differs[OF h1 h2, of "bar0\<lparr>formatState := [(''bold'', False)]\<rparr>"]
    by (simp add: setState_def)
qed

section \<open>The command bar: the file input\<close>

text \<open>
  C7: on a change of the hidden file input, with an editor that is not disposed and a file
  selected: without an image manager the direct \<^verbatim>\<open>insertImage\<close> is the one call made, once;
  with an image manager the calls made are the upload, the insertion of the placeholder it
  returns, the content-changed event and the undo snapshot, each once and in this order;
  and in both cases the value of the input is empty afterwards.
\<close>

theorem C7_file_selected:
  assumes "getEditor p = Some e" and "\<not> isDisposed e" and "files (fileInput s) = f # fs"
  shows "(imageManager p = None \<longrightarrow>
            editorCalls (fileInputOnChange p s) = editorCalls s @ [InsertImage f])
         \<and> (\<forall>upload. imageManager p = Some upload \<longrightarrow>
            editorCalls (fileInputOnChange p s)
              = editorCalls s @ [Upload f, InsertNode (upload f),
                                 TriggerContentChangedEvent Format, AddUndoSnapshot])
         \<and> value' (fileInput (fileInputOnChange p s)) = []"
  using assms
  by (auto simp: fileInputOnChange_def call_def Let_def split: option.splits)

theorem C7_file_selected_witness:
  "getEditor barProps0 = Some \<lparr>isDisposed = False,
      reportedFormatState = Some [(''bold'', False), (''link'', True)]\<rparr>
   \<and> files (fileInput bar0) = [''cat.png'']
   \<and> imageManager barProps0 = None
   \<and> editorCalls (fileInputOnChange barProps0 bar0) = [InsertImage ''cat.png'']
   \<and> value' (fileInput (fileInputOnChange barProps0 bar0)) = []
   \<and> editorCalls (fileInputOnChange (barProps0\<lparr>imageManager := Some (\<lambda>f. ''uploading '' @ f)\<rparr>) bar0)
     = [Upload ''cat.png'', InsertNode ''uploading cat.png'',
        TriggerContentChangedEvent Format, AddUndoSnapshot]
   \<and> value' (fileInput
        (fileInputOnChange (barProps0\<lparr>imageManager := Some (\<lambda>f. ''uploading '' @ f)\<rparr>) bar0)) = []"
proof -
  let ?e = "\<lparr>isDisposed = False,
             reportedFormatState = Some [(''bold'', False), (''link'', True)]\<rparr>"
  let ?q = "barProps0\<lparr>imageManager := Some (\<lambda>f. ''uploading '' @ f)\<rparr>"
  have h1: "getEditor barProps0 = Some ?e" by (simp add: barProps0_def)
  have h1': "getEditor ?q = Some ?e" by (simp add: barProps0_def)
  have h2: "\<not> isDisposed ?e" by simp
  have h3: "files (fileInput bar0) = ''cat.png'' # []" by (simp add: bar0_def)
  have n: "imageManager barProps0 = None" by (simp add: barProps0_def)
  have m: "imageManager ?q = Some (\<lambda>f. ''uploading '' @ f)" by simp
  have c: "editorCalls bar0 = []" by (simp add: bar0_def)
  show ?thesis
    using h1 h3 n m c C7_file_selected[OF h1 h2 h3] C7_file_selected[OF h1' h2 h3]
    by simp
qed

section \<open>The command bar: the items rendered\<close>

lemma getMenuItem_None_iff: "getMenuItem p fs x = None \<longleftrightarrow> x = None"
  by (cases "(p, fs, x)" rule: getMenuItem.cases) simp_all

lemma OutOfBoxCommandBarItemMap_None_iff:
  "OutOfBoxCommandBarItemMap reg k = None \<longleftrightarrow>
     k \<notin> set (map (\<lambda>item. propertyKey (key (itemFields item))) reg)
     \<and> k \<notin> set ObjectPrototypeMembers"
proof (cases "find (\<lambda>item. propertyKey (key (itemFields item)) = k) (rev reg)")
  case None
  then have "k \<notin> set (map (\<lambda>item. propertyKey (key (itemFields item))) reg)"
    by (auto simp: find_None_iff)
  with None show ?thesis
    by (simp add: OutOfBoxCommandBarItemMap_def)
next
  case (Some item)
  have "\<exists>x\<in>set (rev reg). propertyKey (key (itemFields x)) = k"
  proof (rule ccontr)
    assume "\<not> (\<exists>x\<in>set (rev reg). propertyKey (key (itemFields x)) = k)"
    then have "find (\<lambda>item. propertyKey (key (itemFields item)) = k) (rev reg) = None"
      by (simp add: find_None_iff)
    with Some show False by simp
  qed
  then have "k \<in> set (map (\<lambda>item. propertyKey (key (itemFields item))) reg)"
    by auto
  with Some show ?thesis
    by (simp add: OutOfBoxCommandBarItemMap_def)
qed

lemma createItems_eq:
  "createItems reg p s =
     map (\<lambda>k. getMenuItem p (formatState s) (OutOfBoxCommandBarItemMap reg k))
         (filter (\<lambda>k. OutOfBoxCommandBarItemMap reg k \<noteq> None) (buttonKeys s))"
  unfolding createItems_def filter_map o_def by (simp only: getMenuItem_None_iff)

text \<open>
  Away from the inherited names: for a list of keys of the caller none of which is a name
  an object inherits, the items rendered are the menu
  items of the registry's items for the keys filed in the registry, in the order of the
  list, and the other keys yield nothing.
\<close>

lemma createItems_registered_keys:
  assumes "visibleButtonKeys p = Some ks" and "set ks \<inter> set ObjectPrototypeMembers = {}"
  shows "createItems reg p (initButtonKeys reg p s)
           = map (\<lambda>k. getMenuItem p (formatState s) (OutOfBoxCommandBarItemMap reg k))
                 (filter (\<lambda>k. k \<in> set (map (\<lambda>item. propertyKey (key (itemFields item))) reg)) ks)"
proof -
  have bk: "buttonKeys (initButtonKeys reg p s) = ks"
    using assms(1) by (simp add: initButtonKeys_def)
  have fs: "formatState (initButtonKeys reg p s) = formatState s"
    by (simp add: initButtonKeys_def)
  have "filter (\<lambda>k. OutOfBoxCommandBarItemMap reg k \<noteq> None) ks
        = filter (\<lambda>k. k \<in> set (map (\<lambda>item. propertyKey (key (itemFields item))) reg)) ks"
    using assms(2) by (intro filter_cong refl) (auto simp: OutOfBoxCommandBarItemMap_None_iff)
  then show ?thesis
    by (simp only: createItems_eq bk fs)
qed


end
